theory Spec2Isabelle
  imports Complex_Main "HOL-Library.Word" "HOL-Library.Sublist"
begin

section \<open>Values handed over by the plugin framework\<close>

text \<open>
  Every attribute of a resource model is a framework value: null, unknown, or known with
  a Go value. \<open>IsNull\<close> tests the first state, the \<open>Value...\<close> accessors return the Go zero
  value unless the attribute is known, and \<open>Equal\<close> compares the state and, for two known
  attributes, the values.
\<close>

datatype 'a tfval = Null | Unknown | Known 'a

fun IsNull :: "'a tfval \<Rightarrow> bool" where
  "IsNull Null = True"
| "IsNull Unknown = False"
| "IsNull (Known v) = False"

fun Equal :: "'a tfval \<Rightarrow> 'a tfval \<Rightarrow> bool" where
  "Equal Null Null = True"
| "Equal Unknown Unknown = True"
| "Equal (Known a) (Known b) = (a = b)"
| "Equal Null Unknown = False"
| "Equal Null (Known b) = False"
| "Equal Unknown Null = False"
| "Equal Unknown (Known b) = False"
| "Equal (Known a) Null = False"
| "Equal (Known a) Unknown = False"

fun ValueString :: "string tfval \<Rightarrow> string" where
  "ValueString (Known s) = s"
| "ValueString Null = []"
| "ValueString Unknown = []"

fun ValueBool :: "bool tfval \<Rightarrow> bool" where
  "ValueBool (Known b) = b"
| "ValueBool Null = False"
| "ValueBool Unknown = False"

text \<open>
  A \<open>types.Int64\<close> holds a 64-bit signed integer; no arithmetic is done on it.
\<close>

fun ValueInt64 :: "64 word tfval \<Rightarrow> 64 word" where
  "ValueInt64 (Known i) = i"
| "ValueInt64 Null = 0"
| "ValueInt64 Unknown = 0"

text \<open>
  A \<open>types.Float64\<close> keeps the number of the configuration at its full precision (a
  \<open>big.Float\<close>), here a \<^typ>\<open>real\<close>: \<open>Equal\<close> compares these exact numbers, while
  \<open>ValueFloat64\<close> rounds the number to the nearest double, ties to the even mantissa.
  \<open>float64\<close> is that rounding. A double is the real it denotes, and the two infinities
  are \<open>2\<^sup>1\<^sup>0\<^sup>2\<^sup>4\<close> and its negation, which compare with each other and with every
  finite double as the infinities do; negative zero is not told apart from zero.
\<close>

fun ilog2 :: "nat \<Rightarrow> nat" where
  "ilog2 n = (if n < 2 then 0 else Suc (ilog2 (n div 2)))"

declare ilog2.simps [simp del]

definition exponent :: "real \<Rightarrow> int" where
  "exponent x =
     (if 1 \<le> \<bar>x\<bar> then int (ilog2 (nat \<lfloor>\<bar>x\<bar>\<rfloor>))
      else (let y = 1 / \<bar>x\<bar>; k = ilog2 (nat \<lfloor>y\<rfloor>)
            in if y = 2 ^ k then - int k else - int k - 1))"

definition pow2 :: "int \<Rightarrow> real" where
  "pow2 e = (if 0 \<le> e then 2 ^ nat e else 1 / 2 ^ nat (- e))"

definition round_half_even :: "real \<Rightarrow> int" where
  "round_half_even x =
     (let n = \<lfloor>x\<rfloor>; d = x - of_int n
      in if d < 1 / 2 then n else if 1 / 2 < d then n + 1 else if even n then n else n + 1)"

definition float64 :: "real \<Rightarrow> real" where
  "float64 x =
     (if x = 0 then 0
      else if 2 ^ 1024 \<le> \<bar>x\<bar> then sgn x * 2 ^ 1024
      else (let ulp = pow2 (max (exponent x) (- 1022) - 52)
            in sgn x * (of_int (round_half_even (\<bar>x\<bar> / ulp)) * ulp)))"

fun ValueFloat64 :: "real tfval \<Rightarrow> real" where
  "ValueFloat64 (Known x) = float64 x"
| "ValueFloat64 Null = 0"
| "ValueFloat64 Unknown = 0"

text \<open>
  A \<open>types.List\<close> is a framework value whose known content is a list of framework values.
  \<open>Elements\<close> of a null or unknown list is empty. \<open>ElementsAs\<close> converts the elements to
  plain Go values and reports an error diagnostic when an element is null or unknown,
  since a Go \<open>string\<close> (or struct) cannot hold either; the detail of that diagnostic is
  the framework's text, cut short here.
\<close>

datatype diagnostic = ErrorDiagnostic string string | WarningDiagnostic string string

fun is_error :: "diagnostic \<Rightarrow> bool" where
  "is_error (ErrorDiagnostic summary detail) = True"
| "is_error (WarningDiagnostic summary detail) = False"

definition HasError :: "diagnostic list \<Rightarrow> bool" where
  "HasError ds = list_ex is_error ds"

fun Elements :: "'a list tfval \<Rightarrow> 'a list" where
  "Elements (Known xs) = xs"
| "Elements Null = []"
| "Elements Unknown = []"

definition conversion_error :: "diagnostic" where
  "conversion_error = ErrorDiagnostic ''Value Conversion Error''
     ''An unexpected error was encountered trying to build a value.''"

fun element_values :: "'a tfval list \<Rightarrow> 'a list option" where
  "element_values [] = Some []"
| "element_values (Known v # es) = map_option ((#) v) (element_values es)"
| "element_values (Null # es) = None"
| "element_values (Unknown # es) = None"

definition ElementsAs :: "'a tfval list tfval \<Rightarrow> diagnostic list + 'a list" where
  "ElementsAs l = (case element_values (Elements l) of
                     None \<Rightarrow> Inl [conversion_error]
                   | Some vs \<Rightarrow> Inr vs)"

section \<open>Strings and formatting\<close>

text \<open>
  Go strings are byte strings, as are the strings of HOL. \<open>Join\<close>, \<open>HasPrefix\<close>,
  \<open>HasSuffix\<close>, \<open>Split\<close> and \<open>TrimSpace\<close> are those of Go's \<open>strings\<close> package; \<open>Split\<close> is
  only ever called with a one-byte separator here.
\<close>

fun Join :: "string list \<Rightarrow> string \<Rightarrow> string" where
  "Join [] sep = []"
| "Join [x] sep = x"
| "Join (x # y # ys) sep = x @ sep @ Join (y # ys) sep"

definition HasPrefix :: "string \<Rightarrow> string \<Rightarrow> bool" where
  "HasPrefix s p = prefix p s"

definition HasSuffix :: "string \<Rightarrow> string \<Rightarrow> bool" where
  "HasSuffix s p = suffix p s"

fun Split :: "string \<Rightarrow> char \<Rightarrow> string list" where
  "Split [] sep = [[]]"
| "Split (c # cs) sep =
     (if c = sep then [] # Split cs sep
      else (case Split cs sep of [] \<Rightarrow> [[c]] | l # ls \<Rightarrow> (c # l) # ls))"

text \<open>
  \<open>TrimSpace\<close> removes leading and trailing white space as Unicode defines it: the six
  ASCII characters, and the runes U+0085, U+00A0, U+1680, U+2000 to U+200A, U+2028,
  U+2029, U+202F, U+205F and U+3000, here in their UTF-8 encoding.
\<close>

definition asciiSpace :: "char \<Rightarrow> bool" where
  "asciiSpace c = (c = CHR 0x09 \<or> c = CHR 0x0A \<or> c = CHR 0x0B \<or> c = CHR 0x0C
                   \<or> c = CHR 0x0D \<or> c = CHR 0x20)"

definition space_runes :: "string list" where
  "space_runes =
     [[CHR 0xC2, CHR 0x85], [CHR 0xC2, CHR 0xA0], [CHR 0xE1, CHR 0x9A, CHR 0x80],
      [CHR 0xE2, CHR 0x80, CHR 0x80], [CHR 0xE2, CHR 0x80, CHR 0x81],
      [CHR 0xE2, CHR 0x80, CHR 0x82], [CHR 0xE2, CHR 0x80, CHR 0x83],
      [CHR 0xE2, CHR 0x80, CHR 0x84], [CHR 0xE2, CHR 0x80, CHR 0x85],
      [CHR 0xE2, CHR 0x80, CHR 0x86], [CHR 0xE2, CHR 0x80, CHR 0x87],
      [CHR 0xE2, CHR 0x80, CHR 0x88], [CHR 0xE2, CHR 0x80, CHR 0x89],
      [CHR 0xE2, CHR 0x80, CHR 0x8A], [CHR 0xE2, CHR 0x80, CHR 0xA8],
      [CHR 0xE2, CHR 0x80, CHR 0xA9], [CHR 0xE2, CHR 0x80, CHR 0xAF],
      [CHR 0xE2, CHR 0x81, CHR 0x9F], [CHR 0xE3, CHR 0x80, CHR 0x80]]"

definition leading_space :: "string \<Rightarrow> nat" where
  "leading_space s =
     (case s of
        [] \<Rightarrow> 0
      | c # cs \<Rightarrow>
          if asciiSpace c then 1
          else (case find (\<lambda>p. prefix p s) space_runes of
                  None \<Rightarrow> 0
                | Some p \<Rightarrow> length p))"

definition trailing_space :: "string \<Rightarrow> nat" where
  "trailing_space s =
     (case rev s of
        [] \<Rightarrow> 0
      | c # cs \<Rightarrow>
          if asciiSpace c then 1
          else (case find (\<lambda>p. suffix p s) space_runes of
                  None \<Rightarrow> 0
                | Some p \<Rightarrow> length p))"

function TrimLeft :: "string \<Rightarrow> string" where
  "TrimLeft s = (if leading_space s = 0 then s else TrimLeft (drop (leading_space s) s))"
  by pat_completeness auto
termination
proof (relation "measure length")
  show "wf (measure length)" by simp
next
  fix s :: string
  assume "leading_space s \<noteq> 0"
  moreover from this have "s \<noteq> []" by (auto simp: leading_space_def)
  ultimately show "(drop (leading_space s) s, s) \<in> measure length" by simp
qed

function TrimRight :: "string \<Rightarrow> string" where
  "TrimRight s =
     (if trailing_space s = 0 then s else TrimRight (take (length s - trailing_space s) s))"
  by pat_completeness auto
termination
proof (relation "measure length")
  show "wf (measure length)" by simp
next
  fix s :: string
  assume "trailing_space s \<noteq> 0"
  moreover from this have "s \<noteq> []" by (auto simp: trailing_space_def)
  ultimately show "(take (length s - trailing_space s) s, s) \<in> measure length" by simp
qed

declare TrimLeft.simps [simp del]
declare TrimRight.simps [simp del]

definition TrimSpace :: "string \<Rightarrow> string" where
  "TrimSpace s = TrimRight (TrimLeft s)"

text \<open>
  The verb \<open>%d\<close> prints a signed integer in decimal. The verb \<open>%g\<close> prints a double in its
  shortest form: an integral value of magnitude below \<open>10\<^sup>6\<close> as its decimal digits; what
  it prints for every other value (a fraction, an exponent, an infinity) is left to the
  parameter \<open>rest\<close>.
\<close>

fun nat_digits :: "nat \<Rightarrow> string" where
  "nat_digits n =
     (if n < 10 then [''0123456789'' ! n]
      else nat_digits (n div 10) @ [''0123456789'' ! (n mod 10)])"

declare nat_digits.simps [simp del]

definition fmt_d :: "int \<Rightarrow> string" where
  "fmt_d i = (if i < 0 then ''-'' @ nat_digits (nat (- i)) else nat_digits (nat i))"

definition fmt_g :: "(real \<Rightarrow> string) \<Rightarrow> real \<Rightarrow> string" where
  "fmt_g rest x =
     (if x = of_int \<lfloor>x\<rfloor> \<and> \<bar>x\<bar> < 1000000 then fmt_d \<lfloor>x\<rfloor> else rest x)"

section \<open>Effects of an operation\<close>

text \<open>
  An operation receives a response holding the state to persist (\<open>None\<close>: no resource)
  and the diagnostics, and it runs \<open>limactl\<close> and writes log entries. The external tool
  is a parameter: given the commands run before and the arguments of this one, it
  yields the process error, if any, and the combined output.
\<close>

datatype level = Trace | Debug | Warn | Error

datatype logval = LogString string | LogFloat real

type_synonym log_entry = "level \<times> string \<times> (string \<times> logval) list"

type_synonym limactl = "string list list \<Rightarrow> string list \<Rightarrow> string option \<times> string"

record 'm run =
  State :: "'m option"
  Diagnostics :: "diagnostic list"
  invoked :: "string list list"
  logged :: "log_entry list"

definition AddError :: "string \<Rightarrow> string \<Rightarrow> 'm run \<Rightarrow> 'm run" where
  "AddError summary detail r =
     r\<lparr>Diagnostics := Diagnostics r @ [ErrorDiagnostic summary detail]\<rparr>"

definition Append :: "diagnostic list \<Rightarrow> 'm run \<Rightarrow> 'm run" where
  "Append ds r = r\<lparr>Diagnostics := Diagnostics r @ ds\<rparr>"

definition tflog :: "level \<Rightarrow> string \<Rightarrow> (string \<times> logval) list \<Rightarrow> 'm run \<Rightarrow> 'm run" where
  "tflog lv msg kvs r = r\<lparr>logged := logged r @ [(lv, msg, kvs)]\<rparr>"

definition CombinedOutput ::
  "limactl \<Rightarrow> string list \<Rightarrow> 'm run \<Rightarrow> (string option \<times> string) \<times> 'm run" where
  "CombinedOutput tool args r = (tool (invoked r) args, r\<lparr>invoked := invoked r @ [args]\<rparr>)"

definition Set :: "'m \<Rightarrow> 'm run \<Rightarrow> 'm run" where
  "Set data r = r\<lparr>State := Some data\<rparr>"

definition RemoveResource :: "'m run \<Rightarrow> 'm run" where
  "RemoveResource r = r\<lparr>State := None\<rparr>"

definition command_failure :: "string list \<Rightarrow> string \<Rightarrow> string \<Rightarrow> string" where
  "command_failure args e output =
     ''Command: limactl '' @ Join args '' '' @ ''\<newline>Error: '' @ e
       @ ''\<newline>Output: '' @ output"

section \<open>Listing lines\<close>

text \<open>
  Both \<open>Read\<close> operations scan the lines of a listing in the same way. The JSON decoder of
  Go's library is the parameter \<open>unmarshal\<close>: the error message, or the \<open>name\<close> field of
  the decoded object. The scan yields the diagnostic detail of the first line that does
  not decode, or whether a line with the stored name was found.
\<close>

type_synonym unmarshal = "string \<Rightarrow> string + string"

fun scan_lines :: "unmarshal \<Rightarrow> string \<Rightarrow> string list \<Rightarrow> string + bool" where
  "scan_lines unmarshal name [] = Inr False"
| "scan_lines unmarshal name (line # lines) =
     (if line = [] then scan_lines unmarshal name lines
      else (case unmarshal line of
              Inl e \<Rightarrow> Inl (''Error: '' @ e @ ''\<newline>Line: '' @ line)
            | Inr n \<Rightarrow> if n = name then Inr True else scan_lines unmarshal name lines))"

definition listing_lines :: "string \<Rightarrow> string list" where
  "listing_lines output = Split (TrimSpace output) (CHR 0x0A)"

section \<open>The disk resource\<close>

record LimaDiskResourceModel =
  Disk_Name :: "string tfval"
  Disk_Size :: "real tfval"
  Disk_Format :: "string tfval"
  Disk_Id :: "string tfval"

definition LimaDiskResource_Create ::
  "limactl \<Rightarrow> (real \<Rightarrow> string) \<Rightarrow> LimaDiskResourceModel
   \<Rightarrow> LimaDiskResourceModel run \<Rightarrow> LimaDiskResourceModel run" where
  "LimaDiskResource_Create tool rest data r =
     (if HasError (Diagnostics r) then r
      else
        let args = [''disk'', ''create'', ValueString (Disk_Name data)];
            args = args @ [''--size='' @ fmt_g rest (ValueFloat64 (Disk_Size data)) @ ''G''];
            args = (if \<not> IsNull (Disk_Format data)
                    then args @ [''--format='' @ ValueString (Disk_Format data)]
                    else args);
            args = args @ [''--tty=false''];
            r = tflog Debug ''Creating Lima disk''
                  [(''command'', LogString (''limactl '' @ Join args '' ''))] r;
            (res, r) = CombinedOutput tool args r
        in case fst res of
             Some e \<Rightarrow>
               AddError ''Failed to create Lima disk'' (command_failure args e (snd res)) r
           | None \<Rightarrow>
               let r = tflog Trace ''Created Lima disk''
                         [(''name'', LogString (ValueString (Disk_Name data)))] r;
                   data = data\<lparr>Disk_Id := Disk_Name data\<rparr>
               in Set data r)"

definition LimaDiskResource_Read ::
  "limactl \<Rightarrow> unmarshal \<Rightarrow> LimaDiskResourceModel
   \<Rightarrow> LimaDiskResourceModel run \<Rightarrow> LimaDiskResourceModel run" where
  "LimaDiskResource_Read tool unmarshal data r =
     (if HasError (Diagnostics r) then r
      else
        let (res, r) = CombinedOutput tool [''disk'', ''list'', ''--json''] r
        in case fst res of
             Some e \<Rightarrow>
               AddError ''Failed to list Lima disks''
                 (''Error: '' @ e @ ''\<newline>Output: '' @ snd res) r
           | None \<Rightarrow>
               (case scan_lines unmarshal (ValueString (Disk_Name data))
                       (listing_lines (snd res)) of
                  Inl detail \<Rightarrow> AddError ''Failed to parse disk list JSON'' detail r
                | Inr found \<Rightarrow> if \<not> found then RemoveResource r else Set data r))"


definition LimaDiskResource_Delete ::
  "limactl \<Rightarrow> LimaDiskResourceModel
   \<Rightarrow> LimaDiskResourceModel run \<Rightarrow> LimaDiskResourceModel run" where
  "LimaDiskResource_Delete tool data r =
     (if HasError (Diagnostics r) then r
      else
        let r = tflog Debug ''Deleting Lima disk''
                  [(''name'', LogString (ValueString (Disk_Name data)))] r;
            (res, r) = CombinedOutput tool [''disk'', ''delete'', ValueString (Disk_Name data)] r
        in case fst res of
             Some e \<Rightarrow>
               AddError ''Failed to delete Lima disk''
                 (command_failure [''disk'', ''delete'', ValueString (Disk_Name data)]
                    e (snd res)) r
           | None \<Rightarrow>
               tflog Trace ''Deleted Lima disk''
                 [(''name'', LogString (ValueString (Disk_Name data)))] r)"

section \<open>The instance resource\<close>

record DisksModel =
  Disks_Name :: "string tfval"
  Disks_MountPoint :: "string tfval"

record LimaInstanceResourceModel =
  Name :: "string tfval"
  Template :: "string tfval"
  Arch :: "string tfval"
  Containerd :: "string tfval"
  Cpus :: "64 word tfval"
  Disk :: "real tfval"
  Memory :: "real tfval"
  DNS :: "string tfval list tfval"
  Mount :: "string tfval list tfval"
  MountInotify :: "bool tfval"
  MountNone :: "bool tfval"
  MountType :: "string tfval"
  MountWritable :: "bool tfval"
  Network :: "string tfval list tfval"
  Plain :: "bool tfval"
  Rosetta :: "bool tfval"
  Video :: "bool tfval"
  VmType :: "string tfval"
  Disks :: "DisksModel tfval list tfval"
  Instance_Id :: "string tfval"

text \<open>
  The block that both \<open>Create\<close> and \<open>Update\<close> repeat for each list of strings: a list
  that is not null and has elements is converted, and gives one flag for each element.
\<close>

definition list_flags :: "string \<Rightarrow> string tfval list tfval \<Rightarrow> diagnostic list + string list" where
  "list_flags flag l =
     (if \<not> IsNull l \<and> length (Elements l) > 0 then
        (case ElementsAs l of
           Inl ds \<Rightarrow> Inl ds
         | Inr vs \<Rightarrow> Inr (map (\<lambda>v. flag @ v) vs))
      else Inr [])"

text \<open>
  The attached disks become one \<open>--set\<close> flag holding a JSON array of objects with the
  keys \<open>name\<close> and \<open>mountPoint\<close>. The JSON encoder of Go's library is the parameter
  \<open>marshal\<close>.
\<close>

type_synonym marshal = "(string \<times> string) list \<Rightarrow> string + string"

definition disks_flags :: "marshal \<Rightarrow> DisksModel tfval list tfval \<Rightarrow> diagnostic list + string list" where
  "disks_flags marshal l =
     (if \<not> IsNull l \<and> length (Elements l) > 0 then
        (case ElementsAs l of
           Inl ds \<Rightarrow> Inl ds
         | Inr disks \<Rightarrow>
             (case marshal (map (\<lambda>disk. (ValueString (Disks_Name disk),
                                           ValueString (Disks_MountPoint disk))) disks) of
                Inl e \<Rightarrow> Inl [ErrorDiagnostic ''Failed to marshal additional disks''
                                 (''Error: '' @ e)]
              | Inr bytes \<Rightarrow> Inr [''--set=.additionalDisks='' @ bytes]))
      else Inr [])"

definition template_arg :: "string tfval \<Rightarrow> string list" where
  "template_arg t =
     (if \<not> IsNull t then
        let template = ValueString t;
            template = (if \<not> HasPrefix template ''http'' \<and> \<not> HasSuffix template ''.yaml''
                        then ''template://'' @ template else template)
        in [template]
      else [])"

text \<open>
  The argument list of \<open>limactl create\<close>, in the order in which \<open>Create\<close> appends to it, or
  the diagnostics with which \<open>Create\<close> returns before running anything.
\<close>

definition create_args ::
  "marshal \<Rightarrow> (real \<Rightarrow> string) \<Rightarrow> LimaInstanceResourceModel \<Rightarrow> diagnostic list + string list" where
  "create_args marshal rest data =
     (case list_flags ''--dns='' (DNS data) of
        Inl ds \<Rightarrow> Inl ds
      | Inr dns \<Rightarrow>
     (case list_flags ''--mount='' (Mount data) of
        Inl ds \<Rightarrow> Inl ds
      | Inr mounts \<Rightarrow>
     (case list_flags ''--network='' (Network data) of
        Inl ds \<Rightarrow> Inl ds
      | Inr networks \<Rightarrow>
     (case disks_flags marshal (Disks data) of
        Inl ds \<Rightarrow> Inl ds
      | Inr disks \<Rightarrow>
          Inr ([''create'']
            @ (if \<not> IsNull (Name data) then [''--name='' @ ValueString (Name data)] else [])
            @ (if \<not> IsNull (Arch data) then [''--arch='' @ ValueString (Arch data)] else [])
            @ (if \<not> IsNull (Containerd data)
               then [''--containerd='' @ ValueString (Containerd data)] else [])
            @ (if \<not> IsNull (Cpus data)
               then [''--cpus='' @ fmt_d (sint (ValueInt64 (Cpus data)))] else [])
            @ (if \<not> IsNull (Disk data)
               then [''--disk='' @ fmt_g rest (ValueFloat64 (Disk data))] else [])
            @ (if \<not> IsNull (Memory data)
               then [''--memory='' @ fmt_g rest (ValueFloat64 (Memory data))] else [])
            @ dns
            @ mounts
            @ (if ValueBool (MountInotify data) then [''--mount-inotify''] else [])
            @ (if ValueBool (MountNone data) then [''--mount-none''] else [])
            @ (if \<not> IsNull (MountType data)
               then [''--mount-type='' @ ValueString (MountType data)] else [])
            @ (if ValueBool (MountWritable data) then [''--mount-writable''] else [])
            @ networks
            @ (if ValueBool (Plain data) then [''--plain''] else [])
            @ (if ValueBool (Rosetta data) then [''--rosetta''] else [])
            @ (if ValueBool (Video data) then [''--video''] else [])
            @ (if \<not> IsNull (VmType data) then [''--vm-type='' @ ValueString (VmType data)] else [])
            @ disks
            @ [''--tty=false'']
            @ template_arg (Template data))))))"

definition LimaInstanceResource_Create ::
  "limactl \<Rightarrow> marshal \<Rightarrow> (real \<Rightarrow> string) \<Rightarrow> LimaInstanceResourceModel
   \<Rightarrow> LimaInstanceResourceModel run \<Rightarrow> LimaInstanceResourceModel run" where
  "LimaInstanceResource_Create tool marshal rest data r =
     (if HasError (Diagnostics r) then r
      else
        (case create_args marshal rest data of
           Inl ds \<Rightarrow> Append ds r
         | Inr args \<Rightarrow>
            (let name = ValueString (Name data);
                 r = tflog Debug ''Creating Lima instance''
                       [(''command'', LogString (''limactl '' @ Join args '' ''))] r;
                 (res, r) = CombinedOutput tool args r
             in (case fst res of
                   Some e \<Rightarrow>
                     AddError ''Failed to create Lima instance''
                       (command_failure args e (snd res)) r
                 | None \<Rightarrow>
                    (let r = tflog Trace ''Created Lima instance''
                               [(''name'', LogString name)] r;
                         r = tflog Debug ''Starting Lima instance''
                               [(''name'', LogString name)] r;
                         (startRes, r) = CombinedOutput tool [''start'', name] r
                     in (case fst startRes of
                           Some startErr \<Rightarrow>
                            (let r = tflog Warn ''Start failed, cleaning up created instance''
                                       [(''name'', LogString name)] r;
                                 (deleteRes, r) = CombinedOutput tool [''delete'', name] r;
                                 r = (case fst deleteRes of
                                        Some deleteErr \<Rightarrow>
                                          tflog Error
                                            ''Failed to clean up instance after start failure''
                                            [(''name'', LogString name),
                                             (''error'', LogString deleteErr),
                                             (''output'', LogString (snd deleteRes))] r
                                      | None \<Rightarrow> r)
                             in AddError ''Failed to start Lima instance''
                                  (command_failure [''start'', name] startErr
                                     (snd startRes)) r)
                         | None \<Rightarrow>
                            (let r = tflog Trace ''Started Lima instance''
                                       [(''name'', LogString name)] r;
                                 data = data\<lparr>Instance_Id := Name data\<rparr>
                             in Set data r)))))))"

definition LimaInstanceResource_Read ::
  "limactl \<Rightarrow> unmarshal \<Rightarrow> LimaInstanceResourceModel
   \<Rightarrow> LimaInstanceResourceModel run \<Rightarrow> LimaInstanceResourceModel run" where
  "LimaInstanceResource_Read tool unmarshal data r =
     (if HasError (Diagnostics r) then r
      else
        let (res, r) = CombinedOutput tool [''list'', ''--json''] r
        in case fst res of
             Some e \<Rightarrow>
               AddError ''Failed to list Lima instances''
                 (''Error: '' @ e @ ''\<newline>Output: '' @ snd res) r
           | None \<Rightarrow>
               (case scan_lines unmarshal (ValueString (Name data))
                       (listing_lines (snd res)) of
                  Inl detail \<Rightarrow> AddError ''Failed to parse instance list JSON'' detail r
                | Inr found \<Rightarrow> if \<not> found then RemoveResource r else Set data r))"

text \<open>
  The argument list of \<open>limactl edit\<close>: the two leading arguments and one flag for each
  changed attribute that \<open>limactl edit\<close> can set.
\<close>

definition edit_args ::
  "(real \<Rightarrow> string) \<Rightarrow> LimaInstanceResourceModel \<Rightarrow> LimaInstanceResourceModel
   \<Rightarrow> diagnostic list + string list" where
  "edit_args rest plan state =
     (case (if \<not> Equal (DNS plan) (DNS state) then list_flags ''--dns='' (DNS plan)
            else Inr []) of
        Inl ds \<Rightarrow> Inl ds
      | Inr dns \<Rightarrow>
     (case (if \<not> Equal (Mount plan) (Mount state) then list_flags ''--mount='' (Mount plan)
            else Inr []) of
        Inl ds \<Rightarrow> Inl ds
      | Inr mounts \<Rightarrow>
     (case (if \<not> Equal (Network plan) (Network state)
            then list_flags ''--network='' (Network plan) else Inr []) of
        Inl ds \<Rightarrow> Inl ds
      | Inr networks \<Rightarrow>
          Inr ([''edit'', ValueString (Name plan)]
            @ (if \<not> IsNull (Cpus plan) \<and> \<not> Equal (Cpus plan) (Cpus state)
               then [''--cpus='' @ fmt_d (sint (ValueInt64 (Cpus plan)))] else [])
            @ (if \<not> IsNull (Disk plan) \<and> \<not> Equal (Disk plan) (Disk state)
               then [''--disk='' @ fmt_g rest (ValueFloat64 (Disk plan))] else [])
            @ (if \<not> IsNull (Memory plan) \<and> \<not> Equal (Memory plan) (Memory state)
               then [''--memory='' @ fmt_g rest (ValueFloat64 (Memory plan))] else [])
            @ dns
            @ mounts
            @ (if \<not> Equal (MountInotify plan) (MountInotify state)
                  \<and> ValueBool (MountInotify plan)
               then [''--mount-inotify''] else [])
            @ (if \<not> IsNull (MountType plan) \<and> \<not> Equal (MountType plan) (MountType state)
               then [''--mount-type='' @ ValueString (MountType plan)] else [])
            @ (if \<not> Equal (MountWritable plan) (MountWritable state)
                  \<and> ValueBool (MountWritable plan)
               then [''--mount-writable''] else [])
            @ networks
            @ (if \<not> Equal (Rosetta plan) (Rosetta state) \<and> ValueBool (Rosetta plan)
               then [''--rosetta''] else [])
            @ (if \<not> Equal (Video plan) (Video state) \<and> ValueBool (Video plan)
               then [''--video''] else [])))))"

definition LimaInstanceResource_Update ::
  "limactl \<Rightarrow> (real \<Rightarrow> string) \<Rightarrow> LimaInstanceResourceModel \<Rightarrow> LimaInstanceResourceModel
   \<Rightarrow> LimaInstanceResourceModel run \<Rightarrow> LimaInstanceResourceModel run" where
  "LimaInstanceResource_Update tool rest plan state r =
     (if HasError (Diagnostics r) then r
      else
        (case edit_args rest plan state of
           Inl ds \<Rightarrow> Append ds r
         | Inr args \<Rightarrow>
            (if length args > 2 then
               (let name = ValueString (Name plan);
                    r = tflog Debug ''Editing Lima instance''
                          [(''command'', LogString (''limactl '' @ Join args '' ''))] r;
                    r = tflog Debug ''Stopping Lima instance for edit''
                          [(''name'', LogString name)] r;
                    (stopRes, r) = CombinedOutput tool [''stop'', name] r
                in (case fst stopRes of
                      Some stopErr \<Rightarrow>
                        AddError ''Failed to stop Lima instance for edit''
                          (command_failure [''stop'', name] stopErr (snd stopRes)) r
                    | None \<Rightarrow>
                       (let (res, r) = CombinedOutput tool args r
                        in (case fst res of
                              Some e \<Rightarrow>
                                AddError ''Failed to edit Lima instance''
                                  (command_failure args e (snd res)) r
                            | None \<Rightarrow>
                               (let r = tflog Trace ''Edited Lima instance''
                                          [(''name'', LogString name)] r;
                                    r = tflog Debug ''Starting Lima instance after edit''
                                          [(''name'', LogString name)] r;
                                    (startRes, r) = CombinedOutput tool [''start'', name] r
                                in (case fst startRes of
                                      Some startErr \<Rightarrow>
                                        AddError ''Failed to start Lima instance after edit''
                                          (command_failure [''start'', name] startErr
                                             (snd startRes)) r
                                    | None \<Rightarrow>
                                       (let r = tflog Trace
                                                  ''Started Lima instance after edit''
                                                  [(''name'', LogString name)] r
                                        in Set plan r)))))))
             else Set plan r)))"

definition LimaInstanceResource_Delete ::
  "limactl \<Rightarrow> LimaInstanceResourceModel
   \<Rightarrow> LimaInstanceResourceModel run \<Rightarrow> LimaInstanceResourceModel run" where
  "LimaInstanceResource_Delete tool data r =
     (if HasError (Diagnostics r) then r
      else
        let name = ValueString (Name data);
            r = tflog Debug ''Deleting Lima instance'' [(''name'', LogString name)] r;
            (stopRes, r) = CombinedOutput tool [''stop'', name] r;
            r = (case fst stopRes of
                   Some stopErr \<Rightarrow>
                     tflog Warn ''Failed to stop Lima instance (may already be stopped)''
                       [(''name'', LogString name), (''error'', LogString stopErr),
                        (''output'', LogString (snd stopRes))] r
                 | None \<Rightarrow> r);
            (deleteRes, r) = CombinedOutput tool [''delete'', name] r
        in case fst deleteRes of
             Some deleteErr \<Rightarrow>
               AddError ''Failed to delete Lima instance''
                 (command_failure [''delete'', name] deleteErr (snd deleteRes)) r
           | None \<Rightarrow> tflog Trace ''Deleted Lima instance'' [(''name'', LogString name)] r)"

section \<open>Changed attributes that give an edit flag\<close>

text \<open>
  An attribute gives \<open>limactl edit\<close> a flag when it differs from the stored one and its new
  value can be written as a flag: a number or a mount type that is not null, a list that
  has elements, a toggle that is true.
\<close>

definition emits_flag :: "LimaInstanceResourceModel \<Rightarrow> LimaInstanceResourceModel \<Rightarrow> bool" where
  "emits_flag plan state =
     ((\<not> IsNull (Cpus plan) \<and> \<not> Equal (Cpus plan) (Cpus state))
      \<or> (\<not> IsNull (Disk plan) \<and> \<not> Equal (Disk plan) (Disk state))
      \<or> (\<not> IsNull (Memory plan) \<and> \<not> Equal (Memory plan) (Memory state))
      \<or> (\<not> Equal (DNS plan) (DNS state) \<and> \<not> IsNull (DNS plan) \<and> Elements (DNS plan) \<noteq> [])
      \<or> (\<not> Equal (Mount plan) (Mount state) \<and> \<not> IsNull (Mount plan)
           \<and> Elements (Mount plan) \<noteq> [])
      \<or> (\<not> Equal (MountInotify plan) (MountInotify state) \<and> ValueBool (MountInotify plan))
      \<or> (\<not> IsNull (MountType plan) \<and> \<not> Equal (MountType plan) (MountType state))
      \<or> (\<not> Equal (MountWritable plan) (MountWritable state) \<and> ValueBool (MountWritable plan))
      \<or> (\<not> Equal (Network plan) (Network state) \<and> \<not> IsNull (Network plan)
           \<and> Elements (Network plan) \<noteq> [])
      \<or> (\<not> Equal (Rosetta plan) (Rosetta state) \<and> ValueBool (Rosetta plan))
      \<or> (\<not> Equal (Video plan) (Video state) \<and> ValueBool (Video plan)))"

section \<open>Concrete inputs\<close>

text \<open>
  A response as an operation receives it, with no diagnostics, no command run and nothing
  logged; a tool that answers its \<open>i\<close>-th invocation with the \<open>i\<close>-th scripted result and
  succeeds silently afterwards; the disk and the instance of the repository's acceptance
  tests.
\<close>

definition begin_run :: "'m option \<Rightarrow> 'm run" where
  "begin_run st = \<lparr>State = st, Diagnostics = [], invoked = [], logged = []\<rparr>"

definition scripted :: "(string option \<times> string) list \<Rightarrow> limactl" where
  "scripted results history args =
     (if length history < length results then results ! length history else (None, []))"

definition test_disk :: "real \<Rightarrow> LimaDiskResourceModel" where
  "test_disk n = \<lparr>Disk_Name = Known ''test-disk'', Disk_Size = Known n,
                   Disk_Format = Known ''qcow2'', Disk_Id = Known ''test-disk''\<rparr>"

definition test_instance :: LimaInstanceResourceModel where
  "test_instance =
     \<lparr>Name = Known ''test-instance'', Template = Null, Arch = Null, Containerd = Null,
      Cpus = Null, Disk = Null, Memory = Null, DNS = Null, Mount = Null,
      MountInotify = Known False, MountNone = Known False, MountType = Null,
      MountWritable = Known False, Network = Null, Plain = Known False,
      Rosetta = Known False, Video = Known False, VmType = Null, Disks = Null,
      Instance_Id = Known ''test-instance''\<rparr>"

text \<open>
  A listing line is a JSON object; \<open>name_line n\<close> is the compact object whose only key is
  \<open>name\<close>. \<open>sample_unmarshal\<close> is a decoder for the inputs below: it agrees with Go's decoder
  on a compact one-key object whose name is printable ASCII without quote or backslash,
  and on a line whose first byte cannot begin a JSON value; the text it gives for any
  other line is not the library's.
\<close>

definition name_open :: string where
  "name_open = [CHR 0x7B, CHR 0x22] @ ''name'' @ [CHR 0x22, CHR 0x3A, CHR 0x22]"

definition name_close :: string where
  "name_close = [CHR 0x22, CHR 0x7D]"

definition name_line :: "string \<Rightarrow> string" where
  "name_line n = name_open @ n @ name_close"

definition plain_char :: "char \<Rightarrow> bool" where
  "plain_char c = (32 \<le> (of_char c :: nat) \<and> (of_char c :: nat) < 127
                   \<and> c \<noteq> CHR 0x22 \<and> c \<noteq> CHR 0x27 \<and> c \<noteq> CHR 0x5C)"

definition value_start :: "char \<Rightarrow> bool" where
  "value_start c = (c \<in> set ''{[-0123456789tfn'' \<or> c = CHR 0x22 \<or> asciiSpace c)"

definition sample_unmarshal :: unmarshal where
  "sample_unmarshal line =
     (case line of
        [] \<Rightarrow> Inl ''unexpected end of JSON input''
      | c # cs \<Rightarrow>
          if prefix name_open line \<and> suffix name_close line \<and> 11 \<le> length line
             \<and> list_all plain_char (take (length line - 11) (drop 9 line))
          then Inr (take (length line - 11) (drop 9 line))
          else if plain_char c \<and> \<not> value_start c
          then Inl (''invalid character '' @ [CHR 0x27, c, CHR 0x27]
                      @ '' looking for beginning of value'')
          else Inl ''invalid JSON'')"

text \<open>
  \<open>sample_marshal\<close> writes the array of attached disks as Go's encoder does when no
  string needs escaping.
\<close>

definition json_string :: "string \<Rightarrow> string" where
  "json_string s = [CHR 0x22] @ s @ [CHR 0x22]"

definition sample_marshal :: marshal where
  "sample_marshal disks =
     Inr (''['' @ Join (map (\<lambda>(n, m). [CHR 0x7B] @ json_string ''name'' @ '':''
                               @ json_string n @ '','' @ json_string ''mountPoint'' @ '':''
                               @ json_string m @ [CHR 0x7D]) disks) '','' @ '']'')"

section \<open>Lemmas\<close>

lemmas run_defs = AddError_def Append_def tflog_def CombinedOutput_def Set_def
  RemoveResource_def HasError_def

lemmas sample_defs = sample_unmarshal_def name_line_def name_open_def name_close_def
  plain_char_def value_start_def asciiSpace_def suffix_to_prefix

lemmas trim_defs = listing_lines_def TrimSpace_def TrimLeft.simps TrimRight.simps
  leading_space_def trailing_space_def space_runes_def

lemmas fmt_defs = fmt_g_def fmt_d_def nat_digits.simps

lemmas float64_defs = float64_def exponent_def pow2_def round_half_even_def ilog2.simps
  Let_def

lemma scan_lines_found:
  assumes "\<forall>line\<in>set pre. line = [] \<or> (\<exists>n. unmarshal line = Inr n \<and> n \<noteq> name)"
    and "hit \<noteq> []" and "unmarshal hit = Inr name"
  shows "scan_lines unmarshal name (pre @ hit # post) = Inr True"
  using assms by (induction pre) auto

lemma scan_lines_error:
  assumes "\<forall>line\<in>set pre. line = [] \<or> (\<exists>n. unmarshal line = Inr n \<and> n \<noteq> name)"
    and "bad \<noteq> []" and "unmarshal bad = Inl e"
  shows "scan_lines unmarshal name (pre @ bad # post)
         = Inl (''Error: '' @ e @ ''\<newline>Line: '' @ bad)"
  using assms by (induction pre) auto

lemma scan_lines_all_decode:
  assumes "\<forall>line\<in>set ls. line \<noteq> [] \<longrightarrow> (\<exists>n. unmarshal line = Inr n)"
  shows "scan_lines unmarshal name ls
         = Inr (\<exists>line\<in>set ls. line \<noteq> [] \<and> unmarshal line = Inr name)"
  using assms by (induction ls) auto

lemma TrimLeft_ascii: "\<forall>c\<in>set s. asciiSpace c \<Longrightarrow> TrimLeft s = []"
proof (induction s)
  case Nil
  show ?case by (simp add: TrimLeft.simps leading_space_def)
next
  case (Cons c s)
  then have "leading_space (c # s) = 1" by (simp add: leading_space_def)
  with Cons show ?case by (subst TrimLeft.simps) simp
qed

lemma listing_lines_ascii: "\<forall>c\<in>set s. asciiSpace c \<Longrightarrow> listing_lines s = [[]]"
  by (simp add: listing_lines_def TrimSpace_def TrimLeft_ascii TrimRight.simps
      trailing_space_def)

lemma element_values_length: "element_values es = Some vs \<Longrightarrow> length vs = length es"
proof (induction es arbitrary: vs)
  case Nil
  then show ?case by simp
next
  case (Cons e es)
  then show ?case by (cases e) auto
qed

lemma list_flags_nonempty:
  assumes "list_flags flag l = Inr fs"
  shows "(fs \<noteq> []) = (\<not> IsNull l \<and> Elements l \<noteq> [])"
  using assms
  by (auto simp: list_flags_def ElementsAs_def split: if_splits option.splits
      dest: element_values_length)

lemma changed_list_flags_nonempty:
  assumes "(if \<not> Equal p s then list_flags flag p else Inr []) = Inr fs"
  shows "(0 < length fs) = (\<not> Equal p s \<and> \<not> IsNull p \<and> Elements p \<noteq> [])"
  using assms list_flags_nonempty [of flag p fs] by (auto split: if_splits)

lemma length_flag: "(0 < length (if c then [x] else [])) = c"
  by simp

lemma more_than_two:
  "(2 < length ([x, y] @ a @ b @ c @ d @ e @ f @ g @ h @ i @ j @ k))
   = (0 < length a \<or> 0 < length b \<or> 0 < length c \<or> 0 < length d \<or> 0 < length e
      \<or> 0 < length f \<or> 0 < length g \<or> 0 < length h \<or> 0 < length i \<or> 0 < length j
      \<or> 0 < length k)"
  by (simp del: length_greater_0_conv)

lemma edit_args_length:
  assumes "edit_args rest plan state = Inr args"
  shows "(2 < length args) = emits_flag plan state"
proof -
  from assms obtain dns mounts networks where
    dns: "(if \<not> Equal (DNS plan) (DNS state) then list_flags ''--dns='' (DNS plan)
           else Inr []) = Inr dns"
    and mounts: "(if \<not> Equal (Mount plan) (Mount state) then list_flags ''--mount='' (Mount plan)
           else Inr []) = Inr mounts"
    and networks: "(if \<not> Equal (Network plan) (Network state)
           then list_flags ''--network='' (Network plan) else Inr []) = Inr networks"
    and args: "args = [''edit'', ValueString (Name plan)]
            @ (if \<not> IsNull (Cpus plan) \<and> \<not> Equal (Cpus plan) (Cpus state)
               then [''--cpus='' @ fmt_d (sint (ValueInt64 (Cpus plan)))] else [])
            @ (if \<not> IsNull (Disk plan) \<and> \<not> Equal (Disk plan) (Disk state)
               then [''--disk='' @ fmt_g rest (ValueFloat64 (Disk plan))] else [])
            @ (if \<not> IsNull (Memory plan) \<and> \<not> Equal (Memory plan) (Memory state)
               then [''--memory='' @ fmt_g rest (ValueFloat64 (Memory plan))] else [])
            @ dns
            @ mounts
            @ (if \<not> Equal (MountInotify plan) (MountInotify state)
                  \<and> ValueBool (MountInotify plan)
               then [''--mount-inotify''] else [])
            @ (if \<not> IsNull (MountType plan) \<and> \<not> Equal (MountType plan) (MountType state)
               then [''--mount-type='' @ ValueString (MountType plan)] else [])
            @ (if \<not> Equal (MountWritable plan) (MountWritable state)
                  \<and> ValueBool (MountWritable plan)
               then [''--mount-writable''] else [])
            @ networks
            @ (if \<not> Equal (Rosetta plan) (Rosetta state) \<and> ValueBool (Rosetta plan)
               then [''--rosetta''] else [])
            @ (if \<not> Equal (Video plan) (Video state) \<and> ValueBool (Video plan)
               then [''--video''] else [])"
    unfolding edit_args_def by (simp split: sum.splits split del: if_split cong: if_cong)
  show ?thesis
    unfolding args
    by (simp only: more_than_two length_flag emits_flag_def
        changed_list_flags_nonempty [OF dns] changed_list_flags_nonempty [OF mounts]
        changed_list_flags_nonempty [OF networks])
qed

lemma last_after_flags:
  "last (a1 @ a2 @ a3 @ a4 @ a5 @ a6 @ a7 @ a8 @ a9 @ a10 @ a11 @ a12 @ a13 @ a14 @ a15
           @ a16 @ a17 @ a18 @ a19 @ [x] @ ys) = last (x # ys)"
  by simp

lemma create_args_last:
  assumes "create_args marshal rest data = Inr args"
  shows "last args = last (''--tty=false'' # template_arg (Template data))"
  using assms unfolding create_args_def
  by (auto simp only: last_after_flags sum.inject sum.distinct sum.case
      split: sum.split_asm)

lemma list_flags_none:
  assumes "Equal p s \<or> IsNull p \<or> Elements p = []"
  shows "(if \<not> Equal p s then list_flags flag p else Inr []) = Inr []"
  using assms by (auto simp: list_flags_def)

lemma edit_args_no_flag:
  assumes "\<not> emits_flag plan state"
  shows "edit_args rest plan state = Inr [''edit'', ValueString (Name plan)]"
proof -
  have dns: "(if \<not> Equal (DNS plan) (DNS state) then list_flags ''--dns='' (DNS plan)
              else Inr []) = Inr []"
    using assms by (intro list_flags_none) (auto simp: emits_flag_def)
  have mounts: "(if \<not> Equal (Mount plan) (Mount state) then list_flags ''--mount='' (Mount plan)
              else Inr []) = Inr []"
    using assms by (intro list_flags_none) (auto simp: emits_flag_def)
  have networks: "(if \<not> Equal (Network plan) (Network state)
              then list_flags ''--network='' (Network plan) else Inr []) = Inr []"
    using assms by (intro list_flags_none) (auto simp: emits_flag_def)
  have cpus: "\<not> (\<not> IsNull (Cpus plan) \<and> \<not> Equal (Cpus plan) (Cpus state))"
    and disk: "\<not> (\<not> IsNull (Disk plan) \<and> \<not> Equal (Disk plan) (Disk state))"
    and memory: "\<not> (\<not> IsNull (Memory plan) \<and> \<not> Equal (Memory plan) (Memory state))"
    and inotify: "\<not> (\<not> Equal (MountInotify plan) (MountInotify state)
                      \<and> ValueBool (MountInotify plan))"
    and mtype: "\<not> (\<not> IsNull (MountType plan) \<and> \<not> Equal (MountType plan) (MountType state))"
    and writable: "\<not> (\<not> Equal (MountWritable plan) (MountWritable state)
                      \<and> ValueBool (MountWritable plan))"
    and rosetta: "\<not> (\<not> Equal (Rosetta plan) (Rosetta state) \<and> ValueBool (Rosetta plan))"
    and video: "\<not> (\<not> Equal (Video plan) (Video state) \<and> ValueBool (Video plan))"
    using assms unfolding emits_flag_def by blast+
  show ?thesis
    unfolding edit_args_def
    by (simp only: dns mounts networks cpus disk memory inotify mtype writable rosetta video
        if_False sum.case append_Nil2)
qed

section \<open>The disk resource: properties\<close>




text \<open>
  C7. A disk \<open>Create\<close> with name \<open>n\<close>, size \<open>s\<close> and the default format \<open>qcow2\<close> runs exactly
  \<open>disk create n --size=sG --format=qcow2 --tty=false\<close>, the size being the double of \<open>s\<close>
  printed by \<open>%g\<close>; when the command succeeds, the record persisted is the requested one
  with its identifier set to its name, and no diagnostic is added.
\<close>

theorem disk_create_invocation:
  assumes "\<not> HasError (Diagnostics r)"
    and "Disk_Name data = Known n" and "Disk_Size data = Known s"
    and "Disk_Format data = Known ''qcow2''"
  shows "invoked (LimaDiskResource_Create tool rest data r) =
           invoked r @ [[''disk'', ''create'', n, ''--size='' @ fmt_g rest (float64 s) @ ''G'',
                         ''--format=qcow2'', ''--tty=false'']]
       \<and> (fst (tool (invoked r)
                 [''disk'', ''create'', n, ''--size='' @ fmt_g rest (float64 s) @ ''G'',
                  ''--format=qcow2'', ''--tty=false'']) = None \<longrightarrow>
            State (LimaDiskResource_Create tool rest data r)
              = Some (data\<lparr>Disk_Id := Known n\<rparr>)
            \<and> Diagnostics (LimaDiskResource_Create tool rest data r) = Diagnostics r)"
  using assms
  by (simp add: LimaDiskResource_Create_def run_defs Let_def split: option.splits)

theorem disk_create_invocation_witness:
  "Join (last (invoked (LimaDiskResource_Create (scripted []) (\<lambda>x. [])
       \<lparr>Disk_Name = Known ''test-disk'', Disk_Size = Known 10,
        Disk_Format = Known ''qcow2'', Disk_Id = Unknown\<rparr> (begin_run None)))) '' ''
     = ''disk create test-disk --size=10G --format=qcow2 --tty=false''
   \<and> State (LimaDiskResource_Create (scripted []) (\<lambda>x. [])
       \<lparr>Disk_Name = Known ''test-disk'', Disk_Size = Known 10,
        Disk_Format = Known ''qcow2'', Disk_Id = Unknown\<rparr> (begin_run None))
     = Some (test_disk 10)"
proof -
  have size: "float64 10 = 10"
    by (simp add: float64_defs)
  have shown: "fmt_g (\<lambda>x. []) 10 = ''10''"
    by (simp add: fmt_defs)
  show ?thesis
    using disk_create_invocation [of "begin_run None"
        "\<lparr>Disk_Name = Known ''test-disk'', Disk_Size = Known 10,
          Disk_Format = Known ''qcow2'', Disk_Id = Unknown\<rparr>" "''test-disk''" 10
        "scripted []" "\<lambda>x. []"]
    by (simp add: test_disk_def begin_run_def HasError_def size shown scripted_def)
qed

section \<open>Reading a listing: properties\<close>

text \<open>
  C4, as amended. When the listing command of a \<open>Read\<close> (disk or instance) succeeds and a
  non-empty line that does not decode comes before every line whose name is the stored
  one, the \<open>Read\<close> adds one error diagnostic holding the decoder's error and that line,
  and leaves the state to persist as it was. The line is the first one that fails to
  decode: the lines before it are empty or decode to another name.
\<close>

theorem read_parse_error_surfaced:
  assumes "listing_lines output = pre @ bad # post"
    and "\<forall>line\<in>set pre. line = [] \<or> (\<exists>n. unmarshal line = Inr n \<and> n \<noteq> name)"
    and "bad \<noteq> []" and "unmarshal bad = Inl e"
  shows "(\<not> HasError (Diagnostics rd) \<and> ValueString (Disk_Name disk) = name
          \<and> tool (invoked rd) [''disk'', ''list'', ''--json''] = (None, output) \<longrightarrow>
            LimaDiskResource_Read tool unmarshal disk rd =
              rd\<lparr>invoked := invoked rd @ [[''disk'', ''list'', ''--json'']],
                 Diagnostics := Diagnostics rd @ [ErrorDiagnostic ''Failed to parse disk list JSON''
                    (''Error: '' @ e @ ''\<newline>Line: '' @ bad)]\<rparr>)
       \<and> (\<not> HasError (Diagnostics ri) \<and> ValueString (Name instance) = name
          \<and> tool (invoked ri) [''list'', ''--json''] = (None, output) \<longrightarrow>
            LimaInstanceResource_Read tool unmarshal instance ri =
              ri\<lparr>invoked := invoked ri @ [[''list'', ''--json'']],
                 Diagnostics := Diagnostics ri
                    @ [ErrorDiagnostic ''Failed to parse instance list JSON''
                         (''Error: '' @ e @ ''\<newline>Line: '' @ bad)]\<rparr>)"
  using scan_lines_error [OF assms(2,3,4), of post] assms(1)
  by (simp add: LimaDiskResource_Read_def LimaInstanceResource_Read_def
      CombinedOutput_def AddError_def)

theorem read_parse_error_surfaced_witness:
  "LimaDiskResource_Read
     (scripted [(None, name_line ''other'' @ ''\<newline>garbage\<newline>'' @ name_line ''test-disk'')])
     sample_unmarshal (test_disk 10) (begin_run (Some (test_disk 10))) =
     \<lparr>State = Some (test_disk 10),
      Diagnostics = [ErrorDiagnostic ''Failed to parse disk list JSON''
        (''Error: invalid character '' @ [CHR 0x27] @ ''g'' @ [CHR 0x27]
           @ '' looking for beginning of value\<newline>Line: garbage'')],
      invoked = [[''disk'', ''list'', ''--json'']], logged = []\<rparr>
   \<and> LimaInstanceResource_Read
     (scripted [(None, name_line ''other'' @ ''\<newline>garbage\<newline>'' @ name_line ''test-disk'')])
     sample_unmarshal (test_instance\<lparr>Name := Known ''test-disk''\<rparr>)
     (begin_run (Some (test_instance\<lparr>Name := Known ''test-disk''\<rparr>))) =
     \<lparr>State = Some (test_instance\<lparr>Name := Known ''test-disk''\<rparr>),
      Diagnostics = [ErrorDiagnostic ''Failed to parse instance list JSON''
        (''Error: invalid character '' @ [CHR 0x27] @ ''g'' @ [CHR 0x27]
           @ '' looking for beginning of value\<newline>Line: garbage'')],
      invoked = [[''list'', ''--json'']], logged = []\<rparr>"
proof -
  let ?out = "name_line ''other'' @ ''\<newline>garbage\<newline>'' @ name_line ''test-disk''"
  have lines: "listing_lines ?out = [name_line ''other''] @ ''garbage'' # [name_line ''test-disk'']"
    by (simp add: trim_defs sample_defs)
  have pre: "\<forall>line\<in>set [name_line ''other''].
               line = [] \<or> (\<exists>n. sample_unmarshal line = Inr n \<and> n \<noteq> ''test-disk'')"
    by (simp add: sample_defs)
  have bad: "sample_unmarshal ''garbage''
             = Inl (''invalid character '' @ [CHR 0x27] @ ''g'' @ [CHR 0x27]
                      @ '' looking for beginning of value'')"
    by (simp add: sample_defs)
  show ?thesis
    using read_parse_error_surfaced [OF lines pre _ bad,
        of "begin_run (Some (test_disk 10))" "test_disk 10" "scripted [(None, ?out)]"
           "begin_run (Some (test_instance\<lparr>Name := Known ''test-disk''\<rparr>))"
           "test_instance\<lparr>Name := Known ''test-disk''\<rparr>"]
    by (simp add: begin_run_def scripted_def test_disk_def test_instance_def HasError_def)
qed

text \<open>
  The claim C4 as it is written fails: a line that is not JSON and follows a line with the
  stored name is never decoded, and the \<open>Read\<close> succeeds.
\<close>

theorem read_parse_error_counterexample:
  "listing_lines (name_line ''test-disk'' @ ''\<newline>garbage'') = [name_line ''test-disk'', ''garbage'']
   \<and> sample_unmarshal ''garbage''
       = Inl (''invalid character '' @ [CHR 0x27] @ ''g'' @ [CHR 0x27]
                @ '' looking for beginning of value'')
   \<and> LimaDiskResource_Read (scripted [(None, name_line ''test-disk'' @ ''\<newline>garbage'')])
       sample_unmarshal (test_disk 10) (begin_run (Some (test_disk 10))) =
     \<lparr>State = Some (test_disk 10), Diagnostics = [],
      invoked = [[''disk'', ''list'', ''--json'']], logged = []\<rparr>"
proof -
  have lines: "listing_lines (name_line ''test-disk'' @ ''\<newline>garbage'')
               = [name_line ''test-disk'', ''garbage'']"
    by (simp add: trim_defs sample_defs)
  have bad: "sample_unmarshal ''garbage''
             = Inl (''invalid character '' @ [CHR 0x27] @ ''g'' @ [CHR 0x27]
                      @ '' looking for beginning of value'')"
    by (simp add: sample_defs)
  have hit: "sample_unmarshal (name_line ''test-disk'') = Inr ''test-disk''"
    by (simp add: sample_defs)
  have name: "name_line ''test-disk'' \<noteq> []"
    by (simp add: sample_defs)
  show ?thesis
    by (simp add: lines bad hit name LimaDiskResource_Read_def run_defs begin_run_def
        scripted_def test_disk_def)
qed

text \<open>
  C6. When the listing command of a \<open>Read\<close> (disk or instance) succeeds and every non-empty
  line decodes, the \<open>Read\<close> adds no diagnostic; if no line has the stored name it removes
  the record from the state, and otherwise it persists the stored record with every field
  as it was.
\<close>

theorem read_reconciles_by_name:
  assumes "\<forall>line\<in>set (listing_lines output). line \<noteq> [] \<longrightarrow> (\<exists>n. unmarshal line = Inr n)"
  shows "(\<not> HasError (Diagnostics rd)
          \<and> tool (invoked rd) [''disk'', ''list'', ''--json''] = (None, output) \<longrightarrow>
            LimaDiskResource_Read tool unmarshal disk rd =
              rd\<lparr>invoked := invoked rd @ [[''disk'', ''list'', ''--json'']],
                 State := (if \<exists>line\<in>set (listing_lines output).
                                line \<noteq> [] \<and> unmarshal line = Inr (ValueString (Disk_Name disk))
                           then Some disk else None)\<rparr>)
       \<and> (\<not> HasError (Diagnostics ri)
          \<and> tool (invoked ri) [''list'', ''--json''] = (None, output) \<longrightarrow>
            LimaInstanceResource_Read tool unmarshal instance ri =
              ri\<lparr>invoked := invoked ri @ [[''list'', ''--json'']],
                 State := (if \<exists>line\<in>set (listing_lines output).
                                line \<noteq> [] \<and> unmarshal line = Inr (ValueString (Name instance))
                           then Some instance else None)\<rparr>)"
  using scan_lines_all_decode [OF assms]
  by (simp add: LimaDiskResource_Read_def LimaInstanceResource_Read_def
      CombinedOutput_def Set_def RemoveResource_def)

theorem read_reconciles_by_name_witness:
  "LimaDiskResource_Read
     (scripted [(None, name_line ''other'' @ CHR 0x0A # name_line ''test-disk'' @ ''\<newline>'')])
     sample_unmarshal (test_disk 10) (begin_run (Some (test_disk 10))) =
     \<lparr>State = Some (test_disk 10), Diagnostics = [],
      invoked = [[''disk'', ''list'', ''--json'']], logged = []\<rparr>
   \<and> LimaInstanceResource_Read
     (scripted [(None, name_line ''other'' @ CHR 0x0A # name_line ''test-disk'' @ ''\<newline>'')])
     sample_unmarshal test_instance (begin_run (Some test_instance)) =
     \<lparr>State = None, Diagnostics = [],
      invoked = [[''list'', ''--json'']], logged = []\<rparr>"
proof -
  let ?out = "name_line ''other'' @ CHR 0x0A # name_line ''test-disk'' @ ''\<newline>''"
  have lines: "listing_lines ?out = [name_line ''other'', name_line ''test-disk'']"
    by (simp add: trim_defs sample_defs)
  have decode: "sample_unmarshal (name_line ''other'') = Inr ''other''"
    "sample_unmarshal (name_line ''test-disk'') = Inr ''test-disk''"
    "name_line ''other'' \<noteq> []" "name_line ''test-disk'' \<noteq> []"
    by (simp_all add: sample_defs)
  have all: "\<forall>line\<in>set (listing_lines ?out).
               line \<noteq> [] \<longrightarrow> (\<exists>n. sample_unmarshal line = Inr n)"
    by (simp add: lines decode)
  show ?thesis
    using read_reconciles_by_name [OF all,
        of "begin_run (Some (test_disk 10))" "scripted [(None, ?out)]" "test_disk 10"
           "begin_run (Some test_instance)" test_instance]
    by (simp add: lines decode begin_run_def scripted_def test_disk_def test_instance_def
        HasError_def)
qed

text \<open>
  C10. The scan of a \<open>Read\<close> (disk or instance) stops at the first line with the stored
  name: when the lines before it are empty or decode to another name, the \<open>Read\<close> persists
  the stored record and adds no diagnostic, whatever the lines after it are and whatever
  the decoder would say of them or of an empty line. A listing output made of white space
  only has a single, empty line, which is skipped: the \<open>Read\<close> removes the record and adds
  no diagnostic.
\<close>

theorem read_stops_at_first_match:
  shows "(listing_lines output = pre @ hit # post
          \<and> (\<forall>line\<in>set pre. line = [] \<or> (\<exists>n. unmarshal line = Inr n \<and> n \<noteq> name))
          \<and> hit \<noteq> [] \<and> unmarshal hit = Inr name \<longrightarrow>
            (\<not> HasError (Diagnostics rd) \<and> ValueString (Disk_Name disk) = name
             \<and> tool (invoked rd) [''disk'', ''list'', ''--json''] = (None, output) \<longrightarrow>
               LimaDiskResource_Read tool unmarshal disk rd =
                 rd\<lparr>invoked := invoked rd @ [[''disk'', ''list'', ''--json'']],
                    State := Some disk\<rparr>)
            \<and> (\<not> HasError (Diagnostics ri) \<and> ValueString (Name instance) = name
             \<and> tool (invoked ri) [''list'', ''--json''] = (None, output) \<longrightarrow>
               LimaInstanceResource_Read tool unmarshal instance ri =
                 ri\<lparr>invoked := invoked ri @ [[''list'', ''--json'']],
                    State := Some instance\<rparr>))
       \<and> ((\<forall>c\<in>set output. asciiSpace c) \<longrightarrow>
            (\<not> HasError (Diagnostics rd)
             \<and> tool (invoked rd) [''disk'', ''list'', ''--json''] = (None, output) \<longrightarrow>
               LimaDiskResource_Read tool unmarshal disk rd =
                 rd\<lparr>invoked := invoked rd @ [[''disk'', ''list'', ''--json'']],
                    State := None\<rparr>)
            \<and> (\<not> HasError (Diagnostics ri)
             \<and> tool (invoked ri) [''list'', ''--json''] = (None, output) \<longrightarrow>
               LimaInstanceResource_Read tool unmarshal instance ri =
                 ri\<lparr>invoked := invoked ri @ [[''list'', ''--json'']],
                    State := None\<rparr>))"
proof (intro conjI impI)
  assume a: "listing_lines output = pre @ hit # post
          \<and> (\<forall>line\<in>set pre. line = [] \<or> (\<exists>n. unmarshal line = Inr n \<and> n \<noteq> name))
          \<and> hit \<noteq> [] \<and> unmarshal hit = Inr name"
  then have scan: "scan_lines unmarshal name (listing_lines output) = Inr True"
    using scan_lines_found [of pre unmarshal name hit post] by simp
  {
    assume "\<not> HasError (Diagnostics rd) \<and> ValueString (Disk_Name disk) = name
             \<and> tool (invoked rd) [''disk'', ''list'', ''--json''] = (None, output)"
    with scan show "LimaDiskResource_Read tool unmarshal disk rd =
                 rd\<lparr>invoked := invoked rd @ [[''disk'', ''list'', ''--json'']],
                    State := Some disk\<rparr>"
      by (simp add: LimaDiskResource_Read_def CombinedOutput_def Set_def)
  }
  {
    assume "\<not> HasError (Diagnostics ri) \<and> ValueString (Name instance) = name
             \<and> tool (invoked ri) [''list'', ''--json''] = (None, output)"
    with scan show "LimaInstanceResource_Read tool unmarshal instance ri =
                 ri\<lparr>invoked := invoked ri @ [[''list'', ''--json'']],
                    State := Some instance\<rparr>"
      by (simp add: LimaInstanceResource_Read_def CombinedOutput_def Set_def)
  }
next
  assume "\<forall>c\<in>set output. asciiSpace c"
  then have lines: "listing_lines output = [[]]"
    by (rule listing_lines_ascii)
  {
    assume "\<not> HasError (Diagnostics rd)
             \<and> tool (invoked rd) [''disk'', ''list'', ''--json''] = (None, output)"
    with lines show "LimaDiskResource_Read tool unmarshal disk rd =
                 rd\<lparr>invoked := invoked rd @ [[''disk'', ''list'', ''--json'']],
                    State := None\<rparr>"
      by (simp add: LimaDiskResource_Read_def CombinedOutput_def RemoveResource_def)
  }
  {
    assume "\<not> HasError (Diagnostics ri)
             \<and> tool (invoked ri) [''list'', ''--json''] = (None, output)"
    with lines show "LimaInstanceResource_Read tool unmarshal instance ri =
                 ri\<lparr>invoked := invoked ri @ [[''list'', ''--json'']],
                    State := None\<rparr>"
      by (simp add: LimaInstanceResource_Read_def CombinedOutput_def RemoveResource_def)
  }
qed

theorem read_stops_at_first_match_witness:
  "LimaDiskResource_Read
     (scripted [(None, name_line ''other'' @ CHR 0x0A # CHR 0x0A # name_line ''test-disk''
                         @ CHR 0x0A # ''garbage'')])
     sample_unmarshal (test_disk 10) (begin_run (Some (test_disk 10))) =
     \<lparr>State = Some (test_disk 10), Diagnostics = [],
      invoked = [[''disk'', ''list'', ''--json'']], logged = []\<rparr>
   \<and> LimaInstanceResource_Read (scripted [(None, [CHR 0x20, CHR 0x0A, CHR 0x09])])
     sample_unmarshal test_instance (begin_run (Some test_instance)) =
     \<lparr>State = None, Diagnostics = [],
      invoked = [[''list'', ''--json'']], logged = []\<rparr>"
proof -
  let ?out = "name_line ''other'' @ CHR 0x0A # CHR 0x0A # name_line ''test-disk''
                @ CHR 0x0A # ''garbage''"
  let ?blank = "[CHR 0x20, CHR 0x0A, CHR 0x09]"
  have lines: "listing_lines ?out = [name_line ''other'', []] @ name_line ''test-disk'' # [''garbage'']"
    by (simp add: trim_defs sample_defs)
  have pre: "\<forall>line\<in>set [name_line ''other'', []].
               line = [] \<or> (\<exists>n. sample_unmarshal line = Inr n \<and> n \<noteq> ''test-disk'')"
    by (simp add: sample_defs)
  have hit: "name_line ''test-disk'' \<noteq> []"
    "sample_unmarshal (name_line ''test-disk'') = Inr ''test-disk''"
    by (simp_all add: sample_defs)
  have blank: "\<forall>c\<in>set ?blank. asciiSpace c"
    by (simp add: asciiSpace_def)
  show ?thesis
    using read_stops_at_first_match [of ?out "[name_line ''other'', []]"
        "name_line ''test-disk''" "[''garbage'']" sample_unmarshal "''test-disk''"
        "begin_run (Some (test_disk 10))" "test_disk 10" "scripted [(None, ?out)]"
        "begin_run (Some test_instance)" test_instance]
      read_stops_at_first_match [of ?blank "[]" "[]" "[]" sample_unmarshal "[]"
        "begin_run (Some (test_disk 10))" "test_disk 10" "scripted [(None, ?blank)]"
        "begin_run (Some test_instance)" test_instance]
      lines pre hit blank
    by (simp add: begin_run_def scripted_def test_disk_def test_instance_def HasError_def)
qed

section \<open>The instance resource: properties\<close>

text \<open>
  C3. An instance \<open>Create\<close> with a template \<open>t\<close> that is not null passes the template as the
  last argument of the \<open>create\<close> command, the first command it runs: \<open>template://t\<close> when
  \<open>t\<close> neither starts with \<open>http\<close> (which covers \<open>https\<close>) nor ends in \<open>.yaml\<close>, and \<open>t\<close> itself
  otherwise.
\<close>

theorem create_template_argument:
  assumes "\<not> HasError (Diagnostics r)"
    and "create_args marshal rest data = Inr args"
    and "Template data = Known t"
  shows "last args = (if \<not> prefix ''http'' t \<and> \<not> suffix ''.yaml'' t
                      then ''template://'' @ t else t)
       \<and> (\<exists>later. invoked (LimaInstanceResource_Create tool marshal rest data r)
                    = invoked r @ args # later)"
proof
  show "last args = (if \<not> prefix ''http'' t \<and> \<not> suffix ''.yaml'' t
                      then ''template://'' @ t else t)"
    using create_args_last [OF assms(2)] assms(3)
    by (simp add: template_arg_def HasPrefix_def HasSuffix_def)
  show "\<exists>later. invoked (LimaInstanceResource_Create tool marshal rest data r)
                    = invoked r @ args # later"
    using assms(1,2)
    by (simp add: LimaInstanceResource_Create_def run_defs Let_def
        split: option.splits)
qed

theorem create_template_argument_witness:
  "create_args sample_marshal (\<lambda>x. []) (test_instance\<lparr>Template := Known ''docker''\<rparr>)
     = Inr [''create'', ''--name=test-instance'', ''--tty=false'', ''template://docker'']
   \<and> (\<exists>later. invoked (LimaInstanceResource_Create (scripted []) sample_marshal (\<lambda>x. [])
                      (test_instance\<lparr>Template := Known ''docker''\<rparr>) (begin_run None))
        = [''create'', ''--name=test-instance'', ''--tty=false'', ''template://docker'']
            # later)"
proof -
  have args: "create_args sample_marshal (\<lambda>x. []) (test_instance\<lparr>Template := Known ''docker''\<rparr>)
              = Inr [''create'', ''--name=test-instance'', ''--tty=false'', ''template://docker'']"
    by (simp add: create_args_def list_flags_def disks_flags_def template_arg_def
        test_instance_def HasPrefix_def HasSuffix_def suffix_to_prefix)
  have start: "\<not> HasError (Diagnostics (begin_run None :: LimaInstanceResourceModel run))"
    by (simp add: begin_run_def HasError_def)
  have template: "Template (test_instance\<lparr>Template := Known ''docker''\<rparr>) = Known ''docker''"
    by simp
  have empty: "invoked (begin_run None :: LimaInstanceResourceModel run) = []"
    by (simp add: begin_run_def)
  show ?thesis
    using create_template_argument [OF start args template, of "scripted []"] args
    by (simp only: empty append_Nil simp_thms)
qed

text \<open>
  C5. When the \<open>create\<close> command of an instance \<open>Create\<close> succeeds and the \<open>start\<close> command
  fails, \<open>Create\<close> runs \<open>delete\<close> on the instance, reports the failure of \<open>start\<close> as its only
  new diagnostic, and leaves the state to persist as it was, so no record is persisted.
  A failure of \<open>delete\<close> adds one log entry of level error and nothing else.
\<close>

theorem create_start_failure_cleans_up:
  assumes "\<not> HasError (Diagnostics r)"
    and "create_args marshal rest data = Inr args"
    and "name = ValueString (Name data)"
    and "tool (invoked r) args = (None, output)"
    and "tool (invoked r @ [args]) [''start'', name] = (Some startErr, startOutput)"
    and "deleteRes = tool (invoked r @ [args, [''start'', name]]) [''delete'', name]"
  shows "invoked (LimaInstanceResource_Create tool marshal rest data r)
           = invoked r @ [args, [''start'', name], [''delete'', name]]
       \<and> Diagnostics (LimaInstanceResource_Create tool marshal rest data r)
           = Diagnostics r @ [ErrorDiagnostic ''Failed to start Lima instance''
                (command_failure [''start'', name] startErr startOutput)]
       \<and> State (LimaInstanceResource_Create tool marshal rest data r) = State r
       \<and> logged (LimaInstanceResource_Create tool marshal rest data r)
           = logged r
             @ [(Debug, ''Creating Lima instance'',
                   [(''command'', LogString (''limactl '' @ Join args '' ''))]),
                (Trace, ''Created Lima instance'', [(''name'', LogString name)]),
                (Debug, ''Starting Lima instance'', [(''name'', LogString name)]),
                (Warn, ''Start failed, cleaning up created instance'',
                   [(''name'', LogString name)])]
             @ (case fst deleteRes of
                  Some deleteErr \<Rightarrow>
                    [(Error, ''Failed to clean up instance after start failure'',
                        [(''name'', LogString name), (''error'', LogString deleteErr),
                         (''output'', LogString (snd deleteRes))])]
                | None \<Rightarrow> [])"
  using assms
  by (simp add: LimaInstanceResource_Create_def run_defs Let_def
      split: option.splits)

theorem create_start_failure_cleans_up_witness:
  "invoked (LimaInstanceResource_Create
      (scripted [(None, []), (Some ''exit status 1'', ''boot failed''),
                 (Some ''exit status 1'', ''busy'')])
      sample_marshal (\<lambda>x. []) test_instance (begin_run None))
     = [[''create'', ''--name=test-instance'', ''--tty=false''],
        [''start'', ''test-instance''], [''delete'', ''test-instance'']]
   \<and> Diagnostics (LimaInstanceResource_Create
      (scripted [(None, []), (Some ''exit status 1'', ''boot failed''),
                 (Some ''exit status 1'', ''busy'')])
      sample_marshal (\<lambda>x. []) test_instance (begin_run None))
     = [ErrorDiagnostic ''Failed to start Lima instance''
          ''Command: limactl start test-instance\<newline>Error: exit status 1\<newline>Output: boot failed'']
   \<and> State (LimaInstanceResource_Create
      (scripted [(None, []), (Some ''exit status 1'', ''boot failed''),
                 (Some ''exit status 1'', ''busy'')])
      sample_marshal (\<lambda>x. []) test_instance (begin_run None)) = None
   \<and> logged (LimaInstanceResource_Create
      (scripted [(None, []), (Some ''exit status 1'', ''boot failed''),
                 (Some ''exit status 1'', ''busy'')])
      sample_marshal (\<lambda>x. []) test_instance (begin_run None))
     = [(Debug, ''Creating Lima instance'',
           [(''command'', LogString ''limactl create --name=test-instance --tty=false'')]),
        (Trace, ''Created Lima instance'', [(''name'', LogString ''test-instance'')]),
        (Debug, ''Starting Lima instance'', [(''name'', LogString ''test-instance'')]),
        (Warn, ''Start failed, cleaning up created instance'',
           [(''name'', LogString ''test-instance'')]),
        (Error, ''Failed to clean up instance after start failure'',
           [(''name'', LogString ''test-instance''),
            (''error'', LogString ''exit status 1''),
            (''output'', LogString ''busy'')])]"
proof -
  let ?tool = "scripted [(None, []), (Some ''exit status 1'', ''boot failed''),
                (Some ''exit status 1'', ''busy'')]"
  let ?r = "begin_run None :: LimaInstanceResourceModel run"
  have args: "create_args sample_marshal (\<lambda>x. []) test_instance
              = Inr [''create'', ''--name=test-instance'', ''--tty=false'']"
    by (simp add: create_args_def list_flags_def disks_flags_def template_arg_def
        test_instance_def)
  have start: "\<not> HasError (Diagnostics ?r)"
    by (simp add: begin_run_def HasError_def)
  have name: "''test-instance'' = ValueString (Name test_instance)"
    by (simp add: test_instance_def)
  have c1: "?tool (invoked ?r) [''create'', ''--name=test-instance'', ''--tty=false'']
            = (None, [])"
    by (simp add: scripted_def begin_run_def)
  have c2: "?tool (invoked ?r @ [[''create'', ''--name=test-instance'', ''--tty=false'']])
              [''start'', ''test-instance''] = (Some ''exit status 1'', ''boot failed'')"
    by (simp add: scripted_def begin_run_def)
  have r: "invoked ?r = []" "Diagnostics ?r = []" "State ?r = None" "logged ?r = []"
    by (simp_all add: begin_run_def)
  have c3: "?tool [[''create'', ''--name=test-instance'', ''--tty=false''],
                   [''start'', ''test-instance'']] [''delete'', ''test-instance'']
            = (Some ''exit status 1'', ''busy'')"
    by (simp add: scripted_def)
  show ?thesis
    using create_start_failure_cleans_up [OF start args name c1 c2 refl]
    by (simp add: r c3 command_failure_def)
qed

text \<open>
  C1, as amended. An instance \<open>Update\<close> in which a changed attribute gives an edit flag, and
  whose changed lists convert, runs \<open>stop\<close>, then \<open>edit\<close> with the flags, then \<open>start\<close>, and
  stops at the first command that fails: it runs \<open>stop\<close> alone when \<open>stop\<close> fails, \<open>stop\<close>
  and \<open>edit\<close> when \<open>edit\<close> fails, and all three otherwise. The only new diagnostic is the
  error of the command that failed, and the requested record is persisted only when all
  three succeed.
\<close>

theorem update_runs_stop_edit_start:
  assumes "\<not> HasError (Diagnostics r)"
    and "edit_args rest plan state = Inr args"
    and "emits_flag plan state"
    and "name = ValueString (Name plan)"
    and "stopRes = tool (invoked r) [''stop'', name]"
    and "res = tool (invoked r @ [[''stop'', name]]) args"
    and "startRes = tool (invoked r @ [[''stop'', name], args]) [''start'', name]"
  shows "invoked (LimaInstanceResource_Update tool rest plan state r)
           = invoked r
             @ (if fst stopRes \<noteq> None then [[''stop'', name]]
                else if fst res \<noteq> None then [[''stop'', name], args]
                else [[''stop'', name], args, [''start'', name]])
       \<and> Diagnostics (LimaInstanceResource_Update tool rest plan state r)
           = Diagnostics r
             @ (case fst stopRes of
                  Some stopErr \<Rightarrow>
                    [ErrorDiagnostic ''Failed to stop Lima instance for edit''
                       (command_failure [''stop'', name] stopErr (snd stopRes))]
                | None \<Rightarrow>
                    (case fst res of
                       Some e \<Rightarrow>
                         [ErrorDiagnostic ''Failed to edit Lima instance''
                            (command_failure args e (snd res))]
                     | None \<Rightarrow>
                         (case fst startRes of
                            Some startErr \<Rightarrow>
                              [ErrorDiagnostic ''Failed to start Lima instance after edit''
                                 (command_failure [''start'', name] startErr (snd startRes))]
                          | None \<Rightarrow> [])))
       \<and> State (LimaInstanceResource_Update tool rest plan state r)
           = (if fst stopRes = None \<and> fst res = None \<and> fst startRes = None
              then Some plan else State r)"
proof -
  have "2 < length args"
    using edit_args_length [OF assms(2)] assms(3) by simp
  then show ?thesis
    using assms(1,2,4,5,6,7)
    by (simp add: LimaInstanceResource_Update_def run_defs Let_def split: option.splits)
qed

theorem update_runs_stop_edit_start_witness:
  "edit_args (\<lambda>x. []) (test_instance\<lparr>Cpus := Known 4\<rparr>) (test_instance\<lparr>Cpus := Known 2\<rparr>)
     = Inr [''edit'', ''test-instance'', ''--cpus=4'']
   \<and> invoked (LimaInstanceResource_Update (scripted []) (\<lambda>x. [])
        (test_instance\<lparr>Cpus := Known 4\<rparr>) (test_instance\<lparr>Cpus := Known 2\<rparr>)
        (begin_run (Some (test_instance\<lparr>Cpus := Known 2\<rparr>))))
     = [[''stop'', ''test-instance''], [''edit'', ''test-instance'', ''--cpus=4''],
        [''start'', ''test-instance'']]
   \<and> Diagnostics (LimaInstanceResource_Update (scripted []) (\<lambda>x. [])
        (test_instance\<lparr>Cpus := Known 4\<rparr>) (test_instance\<lparr>Cpus := Known 2\<rparr>)
        (begin_run (Some (test_instance\<lparr>Cpus := Known 2\<rparr>)))) = []
   \<and> State (LimaInstanceResource_Update (scripted []) (\<lambda>x. [])
        (test_instance\<lparr>Cpus := Known 4\<rparr>) (test_instance\<lparr>Cpus := Known 2\<rparr>)
        (begin_run (Some (test_instance\<lparr>Cpus := Known 2\<rparr>))))
     = Some (test_instance\<lparr>Cpus := Known 4\<rparr>)"
proof -
  let ?plan = "test_instance\<lparr>Cpus := Known 4\<rparr>"
  let ?state = "test_instance\<lparr>Cpus := Known 2\<rparr>"
  let ?r = "begin_run (Some ?state)"
  have args: "edit_args (\<lambda>x. []) ?plan ?state = Inr [''edit'', ''test-instance'', ''--cpus=4'']"
    by (simp add: edit_args_def list_flags_def test_instance_def fmt_defs)
  have flag: "emits_flag ?plan ?state"
    by (simp add: emits_flag_def test_instance_def)
  have start: "\<not> HasError (Diagnostics ?r)"
    by (simp add: begin_run_def HasError_def)
  have name: "''test-instance'' = ValueString (Name ?plan)"
    by (simp add: test_instance_def)
  have r: "invoked ?r = []" "Diagnostics ?r = []"
    by (simp_all add: begin_run_def)
  have c: "\<And>history a. scripted [] history a = (None, [])"
    by (simp add: scripted_def)
  show ?thesis
    using update_runs_stop_edit_start [OF start args flag name refl refl refl, of "scripted []"]
      args
    by (simp add: r c)
qed

text \<open>
  The claim C1 as it is written fails: a toggle that changes from true to false is a
  changed mutable attribute, and \<open>Update\<close> runs no command for it.
\<close>

theorem update_changed_field_counterexample:
  "\<not> Equal (Rosetta test_instance) (Rosetta (test_instance\<lparr>Rosetta := Known True\<rparr>))
   \<and> LimaInstanceResource_Update (scripted []) (\<lambda>x. []) test_instance
       (test_instance\<lparr>Rosetta := Known True\<rparr>)
       (begin_run (Some (test_instance\<lparr>Rosetta := Known True\<rparr>)))
     = \<lparr>State = Some test_instance, Diagnostics = [], invoked = [], logged = []\<rparr>"
proof -
  have args: "edit_args (\<lambda>x. []) test_instance (test_instance\<lparr>Rosetta := Known True\<rparr>)
              = Inr [''edit'', ''test-instance'']"
    by (simp add: edit_args_def list_flags_def test_instance_def)
  have changed: "\<not> Equal (Rosetta test_instance) (Rosetta (test_instance\<lparr>Rosetta := Known True\<rparr>))"
    by (simp add: test_instance_def)
  show ?thesis
    using changed args
    by (simp add: LimaInstanceResource_Update_def run_defs begin_run_def)
qed

text \<open>
  C9. An instance \<open>Update\<close> in which no changed attribute gives an edit flag (each number
  and the mount type is unchanged or null, each list is unchanged, null or empty, each
  toggle is unchanged or not true) runs no command, adds no diagnostic and no log entry,
  and persists the requested record.
\<close>

theorem update_without_flags_runs_nothing:
  assumes "\<not> HasError (Diagnostics r)"
    and "Equal (Cpus plan) (Cpus state) \<or> IsNull (Cpus plan)"
    and "Equal (Disk plan) (Disk state) \<or> IsNull (Disk plan)"
    and "Equal (Memory plan) (Memory state) \<or> IsNull (Memory plan)"
    and "Equal (DNS plan) (DNS state) \<or> IsNull (DNS plan) \<or> Elements (DNS plan) = []"
    and "Equal (Mount plan) (Mount state) \<or> IsNull (Mount plan) \<or> Elements (Mount plan) = []"
    and "Equal (MountInotify plan) (MountInotify state) \<or> \<not> ValueBool (MountInotify plan)"
    and "Equal (MountType plan) (MountType state) \<or> IsNull (MountType plan)"
    and "Equal (MountWritable plan) (MountWritable state) \<or> \<not> ValueBool (MountWritable plan)"
    and "Equal (Network plan) (Network state) \<or> IsNull (Network plan)
         \<or> Elements (Network plan) = []"
    and "Equal (Rosetta plan) (Rosetta state) \<or> \<not> ValueBool (Rosetta plan)"
    and "Equal (Video plan) (Video state) \<or> \<not> ValueBool (Video plan)"
  shows "LimaInstanceResource_Update tool rest plan state r = r\<lparr>State := Some plan\<rparr>"
proof -
  have "\<not> emits_flag plan state"
    unfolding emits_flag_def using assms(2-12) by blast
  then have "edit_args rest plan state = Inr [''edit'', ValueString (Name plan)]"
    by (rule edit_args_no_flag)
  with assms(1) show ?thesis
    by (simp add: LimaInstanceResource_Update_def Set_def)
qed

theorem update_without_flags_runs_nothing_witness:
  "LimaInstanceResource_Update (scripted []) (\<lambda>x. [])
     (test_instance\<lparr>DNS := Known []\<rparr>)
     (test_instance\<lparr>Cpus := Known 2, DNS := Known [Known ''1.1.1.1''], Video := Known True\<rparr>)
     (begin_run
        (Some (test_instance\<lparr>Cpus := Known 2, DNS := Known [Known ''1.1.1.1''],
                 Video := Known True\<rparr>)))
   = \<lparr>State = Some (test_instance\<lparr>DNS := Known []\<rparr>), Diagnostics = [], invoked = [],
      logged = []\<rparr>"
proof -
  let ?plan = "test_instance\<lparr>DNS := Known []\<rparr>"
  let ?state = "test_instance\<lparr>Cpus := Known 2, DNS := Known [Known ''1.1.1.1''],
                  Video := Known True\<rparr>"
  have start: "\<not> HasError (Diagnostics (begin_run (Some ?state)))"
    by (simp add: begin_run_def HasError_def)
  show ?thesis
    using update_without_flags_runs_nothing [OF start, of ?plan ?state "scripted []" "\<lambda>x. []"]
    by (simp add: test_instance_def begin_run_def)
qed

text \<open>
  C8. An instance \<open>Delete\<close> runs \<open>stop\<close> and then \<open>delete\<close>, whatever \<open>stop\<close> returns. A
  failure of \<open>stop\<close> adds a log entry of level warning and no diagnostic. \<open>Delete\<close> reports
  an error exactly when the \<open>delete\<close> command fails, and the error holds that command, its
  error and its output.
\<close>

theorem delete_stops_then_deletes:
  assumes "\<not> HasError (Diagnostics r)"
    and "name = ValueString (Name data)"
    and "stopRes = tool (invoked r) [''stop'', name]"
    and "deleteRes = tool (invoked r @ [[''stop'', name]]) [''delete'', name]"
  shows "invoked (LimaInstanceResource_Delete tool data r)
           = invoked r @ [[''stop'', name], [''delete'', name]]
       \<and> Diagnostics (LimaInstanceResource_Delete tool data r)
           = Diagnostics r
             @ (case fst deleteRes of
                  Some deleteErr \<Rightarrow>
                    [ErrorDiagnostic ''Failed to delete Lima instance''
                       (command_failure [''delete'', name] deleteErr (snd deleteRes))]
                | None \<Rightarrow> [])
       \<and> (HasError (Diagnostics (LimaInstanceResource_Delete tool data r))
            = (fst deleteRes \<noteq> None))
       \<and> logged (LimaInstanceResource_Delete tool data r)
           = logged r
             @ [(Debug, ''Deleting Lima instance'', [(''name'', LogString name)])]
             @ (case fst stopRes of
                  Some stopErr \<Rightarrow>
                    [(Warn, ''Failed to stop Lima instance (may already be stopped)'',
                        [(''name'', LogString name), (''error'', LogString stopErr),
                         (''output'', LogString (snd stopRes))])]
                | None \<Rightarrow> [])
             @ (case fst deleteRes of
                  Some deleteErr \<Rightarrow> []
                | None \<Rightarrow> [(Trace, ''Deleted Lima instance'', [(''name'', LogString name)])])
       \<and> State (LimaInstanceResource_Delete tool data r) = State r"
  using assms
  by (simp add: LimaInstanceResource_Delete_def run_defs Let_def
      split: option.splits)

theorem delete_stops_then_deletes_witness:
  "invoked (LimaInstanceResource_Delete (scripted [(Some ''exit status 1'', ''not running'')])
      test_instance (begin_run (Some test_instance)))
     = [[''stop'', ''test-instance''], [''delete'', ''test-instance'']]
   \<and> Diagnostics (LimaInstanceResource_Delete
        (scripted [(Some ''exit status 1'', ''not running'')])
        test_instance (begin_run (Some test_instance))) = []
   \<and> logged (LimaInstanceResource_Delete
        (scripted [(Some ''exit status 1'', ''not running'')])
        test_instance (begin_run (Some test_instance)))
     = [(Debug, ''Deleting Lima instance'', [(''name'', LogString ''test-instance'')]),
        (Warn, ''Failed to stop Lima instance (may already be stopped)'',
           [(''name'', LogString ''test-instance''),
            (''error'', LogString ''exit status 1''),
            (''output'', LogString ''not running'')]),
        (Trace, ''Deleted Lima instance'', [(''name'', LogString ''test-instance'')])]"
proof -
  let ?tool = "scripted [(Some ''exit status 1'', ''not running'')]"
  let ?r = "begin_run (Some test_instance)"
  have start: "\<not> HasError (Diagnostics ?r)"
    by (simp add: begin_run_def HasError_def)
  have name: "''test-instance'' = ValueString (Name test_instance)"
    by (simp add: test_instance_def)
  have r: "invoked ?r = []" "Diagnostics ?r = []" "logged ?r = []"
    by (simp_all add: begin_run_def)
  have c: "?tool [] [''stop'', ''test-instance''] = (Some ''exit status 1'', ''not running'')"
    "?tool [[''stop'', ''test-instance'']] [''delete'', ''test-instance''] = (None, [])"
    by (simp_all add: scripted_def)
  show ?thesis
    using delete_stops_then_deletes [OF start name refl refl, of ?tool]
    by (simp add: r c)
qed

end
